theory Spec2Isabelle
  imports Complex_Main "HOL-Library.Sublist" "HOL-Library.Log_Nat"
begin

section \<open>The weather aggregation endpoint\<close>

text \<open>
  A shallow embedding of the route handler \<open>GET\<close> of the weather API route.

  Conventions of the model:
  \<^item> a JavaScript number is a rational \<open>rat\<close>, and a number of a payload is the value the
    JSON parser produced; \<open>NaN\<close> and infinities are not represented. A product or quotient
    that the handler rounds to an integer at once is computed exactly. The one product the
    handler returns as it is, \<open>item.pop * 100\<close>, is the binary64 product \<open>js_times\<close>;
  \<^item> a JavaScript string is a \<open>string\<close>, read as the bytes of its UTF-8 encoding;
  \<^item> an upstream JSON payload is a record with the fields the handler reads. A field the
    handler guards (\<open>wind?.speed || 0\<close>, \<open>visibility || 10000\<close>, \<open>value || 0\<close>) is
    optional; the \<open>weather\<close> array is a list, and reading \<open>weather[0].main\<close> of an empty
    array throws \<open>TypeError\<close>;
  \<^item> \<open>fetch\<close> is a parameter of the handler: a \<open>network\<close> gives the outcome of each of
    the three upstream calls;
  \<^item> the handler returns its HTTP response together with the console messages it emitted
    and the upstream calls it made, in order.
\<close>

subsection \<open>JavaScript primitives\<close>

type_synonym number = rat

definition Math_round :: "number \<Rightarrow> int" where
  \<comment> \<open>\<open>Math.round\<close>: the nearest integer, a tie going up.\<close>
  "Math_round x = \<lfloor>x + 1 / 2\<rfloor>"

definition round_half_even :: "rat \<Rightarrow> int" where
  \<comment> \<open>The nearest integer, a tie going to the even one.\<close>
  "round_half_even x =
     (let f = \<lfloor>x\<rfloor>; d = x - of_int f in
      if d < 1 / 2 then f else if 1 / 2 < d then f + 1 else if even f then f else f + 1)"

definition pow2 :: "int \<Rightarrow> rat" where
  "pow2 e = (if 0 \<le> e then 2 ^ nat e else 1 / 2 ^ nat (- e))"

definition ilog2 :: "rat \<Rightarrow> int" where
  \<comment> \<open>For \<open>x > 0\<close>, the integer \<open>l\<close> with \<open>2 ^ l \<le> x < 2 ^ (l + 1)\<close>.\<close>
  "ilog2 x =
     (let d = bitlen (fst (quotient_of x)) - bitlen (snd (quotient_of x))
      in if pow2 d \<le> x then d else d - 1)"

definition double_of :: "rat \<Rightarrow> number" where
  \<comment> \<open>The binary64 value nearest to \<open>x\<close>, ties to even: 53 significant bits, and a
      spacing of \<open>2 ^ -1074\<close> in the subnormal range. Overflow to infinity is not
      represented.\<close>
  "double_of x =
     (if x = 0 then 0
      else let e = max (ilog2 \<bar>x\<bar> - 52) (- 1074)
           in of_int (round_half_even (x / pow2 e)) * pow2 e)"

definition js_times :: "number \<Rightarrow> number \<Rightarrow> number" where
  \<comment> \<open>\<open>x * y\<close> on two binary64 values: the exact product, rounded to binary64.\<close>
  "js_times x y = double_of (x * y)"

definition or_number :: "number option \<Rightarrow> number \<Rightarrow> number" where
  \<comment> \<open>\<open>v || d\<close> on a number that may be undefined: \<open>undefined\<close> and \<open>0\<close> are falsy.\<close>
  "or_number v d = (case v of None \<Rightarrow> d | Some x \<Rightarrow> if x = 0 then d else x)"

definition hex_digit :: "nat \<Rightarrow> char" where
  "hex_digit n = ''0123456789ABCDEF'' ! (n mod 16)"

definition uri_unreserved :: "char \<Rightarrow> bool" where
  \<comment> \<open>The characters \<open>encodeURIComponent\<close> leaves as they are:
    \<open>A-Z a-z 0-9 - _ . ! ~ * ' ( )\<close>.\<close>
  "uri_unreserved c \<longleftrightarrow>
     (let n = (of_char c :: nat) in
      (65 \<le> n \<and> n \<le> 90) \<or> (97 \<le> n \<and> n \<le> 122) \<or> (48 \<le> n \<and> n \<le> 57) \<or>
      n \<in> {45, 95, 46, 33, 126, 42, 39, 40, 41})"

definition encode_byte :: "char \<Rightarrow> string" where
  "encode_byte c =
     (if uri_unreserved c then [c]
      else [CHR ''%'', hex_digit (of_char c div 16), hex_digit (of_char c mod 16)])"

definition encodeURIComponent :: "string \<Rightarrow> string" where
  "encodeURIComponent s = concat (map encode_byte s)"

fun replace :: "string \<Rightarrow> string \<Rightarrow> string \<Rightarrow> string" where
  \<comment> \<open>\<open>s.replace(pat, rep)\<close> with a string pattern: only the first occurrence is replaced.\<close>
  "replace [] pat rep = (if pat = [] then rep else [])"
| "replace (c # cs) pat rep =
     (if prefix pat (c # cs) then rep @ drop (length pat) (c # cs)
      else c # replace cs pat rep)"

definition lower_char :: "char \<Rightarrow> char" where
  "lower_char c =
     (let n = (of_char c :: nat) in if 65 \<le> n \<and> n \<le> 90 then char_of (n + 32) else c)"

definition toLowerCase :: "string \<Rightarrow> string" where
  \<comment> \<open>\<open>toLowerCase\<close> on the ASCII letters; other bytes are kept.\<close>
  "toLowerCase s = map lower_char s"

definition digit_char :: "nat \<Rightarrow> char" where
  "digit_char n = ''0123456789'' ! (n mod 10)"

function string_of_nat :: "nat \<Rightarrow> string" where
  "string_of_nat n =
     (if n < 10 then [digit_char n] else string_of_nat (n div 10) @ [digit_char (n mod 10)])"
  by pat_completeness auto
termination
  by (relation "measure id") auto

declare string_of_nat.simps [simp del]

datatype js_error = FetchFailed string | SyntaxError | TypeError | RangeError

subsection \<open>Upstream payloads\<close>

record weather_item =
  wi_main :: string
  wi_description :: string
  wi_icon :: string

record main_block =
  temp :: number
  feels_like :: number
  mb_humidity :: number
  mb_pressure :: number

record wind_block =
  speed :: "number option"

record coord_block =
  lat :: number
  lon :: number

record sys_block =
  sys_country :: string

record weather_data =
  name :: string
  sys :: sys_block
  coord :: coord_block
  main :: main_block
  weather :: "weather_item list"
  wind :: "wind_block option"
  wd_visibility :: "number option"

record forecast_item =
  dt :: number
  fi_main :: main_block
  fi_weather :: "weather_item list"
  fi_wind :: "wind_block option"
  pop :: number

record forecast_data =
  fc_list :: "forecast_item list"

record uv_data =
  uv_value :: "number option"

subsection \<open>The network\<close>

datatype 'a fetch_result =
    Rejected string
  | Response nat string "'a option"

text \<open>
  \<open>Rejected e\<close>: the promise of \<open>fetch\<close> rejects. \<open>Response st txt js\<close>: a response with
  status \<open>st\<close> whose body reads as the text \<open>txt\<close> and parses as \<open>js\<close> (\<open>None\<close> when
  \<open>.json()\<close> throws).
\<close>

definition ok :: "nat \<Rightarrow> bool" where
  "ok st \<longleftrightarrow> 200 \<le> st \<and> st \<le> 299"

record network =
  fetch_weather :: "string \<Rightarrow> weather_data fetch_result"
  fetch_forecast :: "string \<Rightarrow> forecast_data fetch_result"
  fetch_uv :: "number \<Rightarrow> number \<Rightarrow> string \<Rightarrow> uv_data fetch_result"

datatype call =
    Fetch string
  | FetchUv number number string

text \<open>
  The UV request is kept as its three parameters (latitude, longitude, credential): the
  decimal rendering of a JavaScript number in a template literal is not modelled.
\<close>

subsection \<open>The response\<close>

record hourly_entry =
  time :: number
  h_temperature :: int
  h_condition :: string
  h_description :: string
  h_iconCode :: string
  h_humidity :: number
  h_windSpeed :: int
  precipitation :: number

record weather_record =
  city :: string
  country :: string
  temperature :: int
  condition :: string
  description :: string
  humidity :: number
  windSpeed :: int
  windUnit :: string
  visibility :: int
  visibilityUnit :: string
  pressure :: number
  feelsLike :: int
  uvIndex :: int
  icon :: string
  iconCode :: string
  units :: string
  tempUnit :: string
  hourlyForecast :: "hourly_entry list"

datatype body = ErrorBody string | WeatherBody weather_record | Unhandled js_error

text \<open>
  \<open>Unhandled e\<close> is not a body of the handler: it stands for the answer of the framework
  when the exception \<open>e\<close> leaves the handler.
\<close>

record http_response =
  status :: nat
  body :: body

datatype console = Console_log | Console_warn | Console_error

datatype log_arg = Str string | Exn js_error

type_synonym log_entry = "console \<times> string \<times> log_arg"

record outcome =
  response :: http_response
  logs :: "log_entry list"
  calls :: "call list"

record request =
  q_city :: "string option"
  q_units :: "string option"

subsection \<open>The handler\<close>

definition OPENWEATHER_BASE_URL :: string where
  "OPENWEATHER_BASE_URL = ''https://api.openweathermap.org/data/2.5''"

definition json_response :: "nat \<Rightarrow> body \<Rightarrow> js_error + http_response" where
  \<comment> \<open>\<open>NextResponse.json(body, { status })\<close>; the status is 200 when none is given. The
      framework builds a \<open>Response\<close> with a body: the constructor throws \<open>RangeError\<close> for
      a status outside 200..599 and \<open>TypeError\<close> for a null-body status (101, 103, 204,
      205, 304).\<close>
  "json_response st b =
     (if st < 200 \<or> 599 < st then Inl RangeError
      else if st \<in> {101, 103, 204, 205, 304} then Inl TypeError
      else Inr \<lparr>status = st, body = b\<rparr>)"

definition unhandled :: "log_entry list \<Rightarrow> call list \<Rightarrow> js_error \<Rightarrow> outcome" where
  \<comment> \<open>An exception leaves the handler, and the framework answers 500.\<close>
  "unhandled ls cs e = \<lparr>response = \<lparr>status = 500, body = Unhandled e\<rparr>, logs = ls, calls = cs\<rparr>"

definition return_response ::
  "log_entry list \<Rightarrow> call list \<Rightarrow> (js_error \<Rightarrow> outcome) \<Rightarrow> js_error + http_response \<Rightarrow> outcome"
  where
  \<comment> \<open>\<open>return NextResponse.json(...)\<close> after the messages \<open>ls\<close> and the calls \<open>cs\<close>; an
      exception thrown while the response is built goes to \<open>handler\<close>.\<close>
  "return_response ls cs handler res =
     (case res of
        Inl e \<Rightarrow> handler e
      | Inr r \<Rightarrow> \<lparr>response = r, logs = ls, calls = cs\<rparr>)"

definition units_of :: "request \<Rightarrow> string" where
  \<comment> \<open>\<open>searchParams.get("units") || "imperial"\<close>\<close>
  "units_of req =
     (case q_units req of None \<Rightarrow> ''imperial'' | Some u \<Rightarrow> if u = [] then ''imperial'' else u)"

definition weatherUrl :: "string \<Rightarrow> string \<Rightarrow> string \<Rightarrow> string" where
  "weatherUrl c k u =
     OPENWEATHER_BASE_URL @ ''/weather?q='' @ encodeURIComponent c @ ''&appid='' @ k @
     ''&units='' @ u"

definition forecastUrl :: "string \<Rightarrow> string \<Rightarrow> string \<Rightarrow> string" where
  "forecastUrl c k u =
     OPENWEATHER_BASE_URL @ ''/forecast?q='' @ encodeURIComponent c @ ''&appid='' @ k @
     ''&units='' @ u"

definition redact :: "string \<Rightarrow> string \<Rightarrow> string" where
  \<comment> \<open>\<open>url.replace(OPENWEATHER_API_KEY, "[API_KEY]")\<close>\<close>
  "redact url k = replace url k ''[API_KEY]''"

definition wind_speed_or_0 :: "wind_block option \<Rightarrow> number" where
  \<comment> \<open>\<open>x.wind?.speed || 0\<close>\<close>
  "wind_speed_or_0 w = or_number (case w of None \<Rightarrow> None | Some b \<Rightarrow> speed b) 0"

definition weather0 :: "weather_item list \<Rightarrow> js_error + weather_item" where
  \<comment> \<open>\<open>x.weather[0]\<close>, a property of which is read next: \<open>TypeError\<close> on an empty array.\<close>
  "weather0 ws = (case ws of [] \<Rightarrow> Inl TypeError | w # _ \<Rightarrow> Inr w)"

definition map_item :: "string \<Rightarrow> forecast_item \<Rightarrow> js_error + hourly_entry" where
  "map_item u item =
     (case weather0 (fi_weather item) of
        Inl e \<Rightarrow> Inl e
      | Inr w \<Rightarrow> Inr
         \<lparr>time = dt item,
          h_temperature = Math_round (temp (fi_main item)),
          h_condition = wi_main w,
          h_description = wi_description w,
          h_iconCode = wi_icon w,
          h_humidity = mb_humidity (fi_main item),
          h_windSpeed =
            (if u = ''imperial'' then Math_round (wind_speed_or_0 (fi_wind item))
             else Math_round (wind_speed_or_0 (fi_wind item) * 3.6)),
          precipitation = js_times (pop item) 100\<rparr>)"

fun map_items :: "string \<Rightarrow> forecast_item list \<Rightarrow> js_error + hourly_entry list" where
  \<comment> \<open>\<open>.map(...)\<close>: the first callback that throws ends the whole mapping.\<close>
  "map_items u [] = Inr []"
| "map_items u (item # items) =
     (case map_item u item of
        Inl e \<Rightarrow> Inl e
      | Inr h \<Rightarrow> (case map_items u items of Inl e \<Rightarrow> Inl e | Inr hs \<Rightarrow> Inr (h # hs)))"

definition forecast_warn :: "js_error \<Rightarrow> log_entry" where
  "forecast_warn e = (Console_warn, ''Forecast fetch failed:'', Exn e)"

definition fetch_hourlyForecast ::
  "network \<Rightarrow> string \<Rightarrow> string \<Rightarrow> hourly_entry list \<times> log_entry list" where
  \<comment> \<open>The inner \<open>try\<close> around the forecast: \<open>hourlyForecast\<close> stays \<open>[]\<close> unless the
      assignment is reached.\<close>
  "fetch_hourlyForecast net url u =
     (case fetch_forecast net url of
        Rejected e \<Rightarrow> ([], [forecast_warn (FetchFailed e)])
      | Response st txt js \<Rightarrow>
          if ok st then
            (case js of
               None \<Rightarrow> ([], [forecast_warn SyntaxError])
             | Some forecastData \<Rightarrow>
                 (case map_items u (take 8 (fc_list forecastData)) of
                    Inl e \<Rightarrow> ([], [forecast_warn e])
                  | Inr hs \<Rightarrow> (hs, [])))
          else ([], []))"

definition uv_warn :: "js_error \<Rightarrow> log_entry" where
  "uv_warn e = (Console_warn, ''UV index fetch failed:'', Exn e)"

definition fetch_uvIndex :: "network \<Rightarrow> weather_data \<Rightarrow> string \<Rightarrow> int \<times> log_entry list" where
  \<comment> \<open>The inner \<open>try\<close> around the UV index: \<open>uvIndex\<close> stays \<open>0\<close> unless assigned.\<close>
  "fetch_uvIndex net weatherData k =
     (case fetch_uv net (lat (coord weatherData)) (lon (coord weatherData)) k of
        Rejected e \<Rightarrow> (0, [uv_warn (FetchFailed e)])
      | Response st txt js \<Rightarrow>
          if ok st then
            (case js of
               None \<Rightarrow> (0, [uv_warn SyntaxError])
             | Some uvData \<Rightarrow> (Math_round (or_number (uv_value uvData) 0), []))
          else (0, []))"

definition convert_wind :: "string \<Rightarrow> weather_data \<Rightarrow> number \<times> string" where
  \<comment> \<open>The block "Convert wind speed based on units": the pair \<open>(windSpeed, windUnit)\<close>.\<close>
  "convert_wind u weatherData =
     (let windSpeed = wind_speed_or_0 (wind weatherData) in
      if u = ''imperial'' then (windSpeed, ''mph'')
      else (of_int (Math_round (windSpeed * 3.6)), ''km/h''))"

definition degree_sign :: string where
  \<comment> \<open>The degree sign U+00B0 in UTF-8.\<close>
  "degree_sign = [CHR 0xC2, CHR 0xB0]"

definition transformedData ::
  "string \<Rightarrow> weather_data \<Rightarrow> int \<Rightarrow> hourly_entry list \<Rightarrow> js_error + weather_record" where
  "transformedData u weatherData uv hourly =
     (case weather0 (weather weatherData) of
        Inl e \<Rightarrow> Inl e
      | Inr w \<Rightarrow> Inr
         \<lparr>city = name weatherData,
          country = sys_country (sys weatherData),
          temperature = Math_round (temp (main weatherData)),
          condition = wi_main w,
          description = wi_description w,
          humidity = mb_humidity (main weatherData),
          windSpeed = Math_round (fst (convert_wind u weatherData)),
          windUnit = snd (convert_wind u weatherData),
          visibility =
            Math_round (or_number (wd_visibility weatherData) 10000 /
                        (if u = ''imperial'' then 1609.34 else 1000)),
          visibilityUnit = (if u = ''imperial'' then ''mi'' else ''km''),
          pressure = mb_pressure (main weatherData),
          feelsLike = Math_round (feels_like (main weatherData)),
          uvIndex = uv,
          icon = toLowerCase (wi_main w),
          iconCode = wi_icon w,
          units = u,
          tempUnit = degree_sign @ (if u = ''imperial'' then ''F'' else ''C''),
          hourlyForecast = hourly\<rparr>)"

definition upstream_error :: "nat \<Rightarrow> js_error + http_response" where
  \<comment> \<open>The responses for a current-conditions response that is not ok.\<close>
  "upstream_error st =
     (if st = 401 then
        json_response 401 (ErrorBody
          (''Invalid API key. Please check your OpenWeatherMap API key and ensure it'' @
           [CHR 0x27] @ ''s activated.''))
      else if st = 404 then
        json_response 404 (ErrorBody ''City not found. Please check the spelling and try again.'')
      else if st = 429 then
        json_response 429 (ErrorBody ''API rate limit exceeded. Please try again later.'')
      else
        json_response st (ErrorBody
          (''Weather service error ('' @ string_of_nat st @ ''). Please try again later.'')))"

definition catch_all :: "log_entry list \<Rightarrow> call list \<Rightarrow> js_error \<Rightarrow> outcome" where
  \<comment> \<open>The outer \<open>catch\<close>.\<close>
  "catch_all ls cs e =
     (let ls' = ls @ [(Console_error, ''Weather API error:'', Exn e)]
      in return_response ls' cs (unhandled ls' cs)
           (json_response 500 (ErrorBody
              ''Failed to fetch weather data. Please check your internet connection and try again.'')))"

definition aggregate :: "string \<Rightarrow> network \<Rightarrow> string \<Rightarrow> string \<Rightarrow> outcome" where
  \<comment> \<open>The outer \<open>try\<close> block, for credential \<open>k\<close>, city \<open>c\<close> and units \<open>u\<close>.\<close>
  "aggregate k net c u =
     (let wurl = weatherUrl c k u;
          log1 = (Console_log, ''Fetching weather from:'', Str (redact wurl k))
      in case fetch_weather net wurl of
        Rejected e \<Rightarrow> catch_all [log1] [Fetch wurl] (FetchFailed e)
      | Response st errorText js \<Rightarrow>
          if \<not> ok st then
            (let ls = [log1, (Console_error, ''Weather API error response:'', Str errorText)]
             in return_response ls [Fetch wurl] (catch_all ls [Fetch wurl]) (upstream_error st))
          else
            (case js of
               None \<Rightarrow> catch_all [log1] [Fetch wurl] SyntaxError
             | Some weatherData \<Rightarrow>
                 (let furl = forecastUrl c k u;
                      log2 = (Console_log, ''Fetching forecast from:'', Str (redact furl k));
                      forecast = fetch_hourlyForecast net furl u;
                      uv = fetch_uvIndex net weatherData k;
                      ls = [log1, log2] @ snd forecast @ snd uv;
                      cs = [Fetch wurl, Fetch furl,
                            FetchUv (lat (coord weatherData)) (lon (coord weatherData)) k]
                  in case transformedData u weatherData (fst uv) (fst forecast) of
                       Inl e \<Rightarrow> catch_all ls cs e
                     | Inr r \<Rightarrow>
                         return_response ls cs (catch_all ls cs)
                           (json_response 200 (WeatherBody r)))))"

definition GET :: "string option \<Rightarrow> network \<Rightarrow> request \<Rightarrow> outcome" where
  \<comment> \<open>The handler; the first argument is \<open>process.env.OPENWEATHER_API_KEY\<close>. The three
      checks are outside the \<open>try\<close>.\<close>
  "GET OPENWEATHER_API_KEY net req =
     (let u = units_of req in
      case q_city req of
        None \<Rightarrow>
          return_response [] [] (unhandled [] [])
            (json_response 400 (ErrorBody ''City parameter is required''))
      | Some c \<Rightarrow>
          if c = [] then
            return_response [] [] (unhandled [] [])
              (json_response 400 (ErrorBody ''City parameter is required''))
          else
            (case OPENWEATHER_API_KEY of
               None \<Rightarrow>
                 return_response [] [] (unhandled [] [])
                   (json_response 500 (ErrorBody ''OpenWeatherMap API key not configured''))
             | Some k \<Rightarrow>
                 if k = [] then
                   return_response [] [] (unhandled [] [])
                     (json_response 500 (ErrorBody ''OpenWeatherMap API key not configured''))
                 else if length k \<noteq> 32 then
                   return_response [] [] (unhandled [] [])
                     (json_response 500
                        (ErrorBody
                           ''Invalid API key format. Please check your OPENWEATHER_API_KEY.''))
                 else aggregate k net c u))"

definition trim :: "string \<Rightarrow> string" where
  \<comment> \<open>\<open>String.prototype.trim\<close>, which the client applies to the search text before it calls
      the handler; the handler itself never calls it. ASCII white space only.\<close>
  "trim s =
     rev (dropWhile (\<lambda>c. (of_char c :: nat) \<in> {9, 10, 11, 12, 13, 32})
       (rev (dropWhile (\<lambda>c. (of_char c :: nat) \<in> {9, 10, 11, 12, 13, 32}) s)))"

subsection \<open>Notions used to state the properties\<close>

definition record_of :: "outcome \<Rightarrow> weather_record option" where
  \<comment> \<open>The record of a successful response.\<close>
  "record_of out =
     (case body (response out) of WeatherBody r \<Rightarrow> Some r | _ \<Rightarrow> None)"

definition failed :: "'a fetch_result \<Rightarrow> bool" where
  \<comment> \<open>A failed upstream call: a network error or a status that is not a success.\<close>
  "failed r = (case r of Rejected e \<Rightarrow> True | Response st txt js \<Rightarrow> \<not> ok st)"

subsection \<open>Sample inputs\<close>

definition key0 :: string where
  "key0 = ''0123456789abcdef0123456789abcdef''"

definition wd0 :: weather_data where
  "wd0 =
     \<lparr>name = ''London'', sys = \<lparr>sys_country = ''GB''\<rparr>, coord = \<lparr>lat = 51.5, lon = - 0.12\<rparr>,
      main = \<lparr>temp = 15.6, feels_like = 14.2, mb_humidity = 80, mb_pressure = 1012\<rparr>,
      weather = [\<lparr>wi_main = ''Clouds'', wi_description = ''broken clouds'', wi_icon = ''04d''\<rparr>],
      wind = Some \<lparr>speed = Some 10\<rparr>, wd_visibility = Some 10000\<rparr>"

definition item_at :: "nat \<Rightarrow> forecast_item" where
  "item_at n =
     \<lparr>dt = 1700000000 + 10800 * of_nat n,
      fi_main = \<lparr>temp = 12.5 + of_nat n, feels_like = 11, mb_humidity = 70, mb_pressure = 1010\<rparr>,
      fi_weather = [\<lparr>wi_main = ''Rain'', wi_description = ''light rain'', wi_icon = ''10d''\<rparr>],
      fi_wind = Some \<lparr>speed = Some 2.5\<rparr>, pop = 0\<rparr>"

definition fd0 :: forecast_data where
  \<comment> \<open>Ten forecast entries, two more than the handler keeps.\<close>
  "fd0 = \<lparr>fc_list = map item_at [0..<10]\<rparr>"

definition fd_rain :: forecast_data where
  \<comment> \<open>The same ten entries with a \<open>pop\<close> of 0.29, as parsed: the binary64 value
      5224175567749775 / 2 ^ 54.\<close>
  "fd_rain = \<lparr>fc_list = map (\<lambda>n. (item_at n)\<lparr>pop := double_of 0.29\<rparr>) [0..<10]\<rparr>"

definition const_net ::
  "weather_data fetch_result \<Rightarrow> forecast_data fetch_result \<Rightarrow> uv_data fetch_result \<Rightarrow> network"
  where
  "const_net w f v =
     \<lparr>fetch_weather = (\<lambda>_. w), fetch_forecast = (\<lambda>_. f), fetch_uv = (\<lambda>_ _ _. v)\<rparr>"

definition net_ok :: network where
  \<comment> \<open>All three upstream calls succeed.\<close>
  "net_ok =
     const_net (Response 200 [] (Some wd0)) (Response 200 [] (Some fd0))
       (Response 200 [] (Some \<lparr>uv_value = Some 5.4\<rparr>))"

definition net_rain :: network where
  \<comment> \<open>All three upstream calls succeed, and the forecast is \<open>fd_rain\<close>.\<close>
  "net_rain =
     const_net (Response 200 [] (Some wd0)) (Response 200 [] (Some fd_rain))
       (Response 200 [] (Some \<lparr>uv_value = Some 5.4\<rparr>))"

definition net_down :: network where
  \<comment> \<open>The forecast call rejects and the UV call answers 500.\<close>
  "net_down = const_net (Response 200 [] (Some wd0)) (Rejected ''down'') (Response 500 [] None)"

definition net_fog :: network where
  \<comment> \<open>The current conditions report a visibility of 0 meters.\<close>
  "net_fog =
     const_net (Response 200 [] (Some (wd0\<lparr>wd_visibility := Some 0\<rparr>)))
       (Response 200 [] (Some fd0)) (Response 200 [] (Some \<lparr>uv_value = Some 5.4\<rparr>))"

definition net_novis :: network where
  \<comment> \<open>The current conditions carry no visibility field.\<close>
  "net_novis =
     const_net (Response 200 [] (Some (wd0\<lparr>wd_visibility := None\<rparr>)))
       (Response 200 [] (Some fd0)) (Response 200 [] (Some \<lparr>uv_value = Some 5.4\<rparr>))"

definition net_status :: "nat \<Rightarrow> network" where
  \<comment> \<open>The current-conditions call answers with the given status.\<close>
  "net_status st = const_net (Response st ''{}'' None) (Rejected []) (Rejected [])"

definition req0 :: "string option \<Rightarrow> request" where
  "req0 u = \<lparr>q_city = Some ''London'', q_units = u\<rparr>"

section \<open>Properties\<close>

subsection \<open>Auxiliary facts\<close>

lemma Math_round_of_int [simp]: "Math_round (of_int n) = n"
  unfolding Math_round_def by (simp add: floor_eq_iff)

text \<open>
  The binary64 arithmetic on known values: 0.29 parses to 5224175567749775 / 2 ^ 54, its
  product with 100 prints as 28.999999999999996, the product of 0.07 and 100 prints as
  7.000000000000001, and the product of 0.375 and 100 is exactly 37.5.
\<close>

lemma double_of_examples:
  "double_of 0.29 = 5224175567749775 / 18014398509481984"
  "js_times (double_of 0.29) 100 = 8162774324609023 / 281474976710656"
  "js_times (double_of 0.07) 100 = 7881299347898369 / 1125899906842624"
  "js_times 0.375 100 = 37.5"
  "double_of 100 = 100"
  by code_simp+

lemma round_miles: "Math_round (10000 / 1609.34) = 6"
  by code_simp

lemma round_km: "Math_round (10000 / 1000) = 10"
  by code_simp

lemma spelling_mentioned:
  "sublist ''spelling'' ''City not found. Please check the spelling and try again.''"
  by code_simp

lemma wind_speed_or_0_Some [simp]: "wind_speed_or_0 (Some \<lparr>speed = Some s\<rparr>) = s"
  by (simp add: wind_speed_or_0_def or_number_def)

lemma record_of_Some_iff: "record_of out = Some r \<longleftrightarrow> body (response out) = WeatherBody r"
  by (simp add: record_of_def split: body.splits)

lemma json_response_Inr:
  "200 \<le> st \<Longrightarrow> st \<le> 599 \<Longrightarrow> st \<notin> {204, 205, 304} \<Longrightarrow>
   json_response st b = Inr \<lparr>status = st, body = b\<rparr>"
  by (auto simp: json_response_def)

lemma json_response_InrD: "json_response st b = Inr r \<Longrightarrow> r = \<lparr>status = st, body = b\<rparr>"
  by (auto simp: json_response_def split: if_splits)

lemma catch_all_response:
  "response (catch_all ls cs e) =
     \<lparr>status = 500, body = ErrorBody
        ''Failed to fetch weather data. Please check your internet connection and try again.''\<rparr>"
  "calls (catch_all ls cs e) = cs"
  by (simp_all add: catch_all_def Let_def return_response_def json_response_def)

lemma body_catch_all [simp]: "body (response (catch_all ls cs e)) \<noteq> WeatherBody r"
  by (simp add: catch_all_response)

lemma upstream_error_InrD:
  "upstream_error st = Inr resp \<Longrightarrow> status resp = st \<and> (\<exists>msg. body resp = ErrorBody msg)"
  by (auto simp: upstream_error_def dest!: json_response_InrD split: if_splits)

lemma upstream_error_Inr:
  assumes "200 \<le> st" "st \<le> 599" "st \<notin> {204, 205, 304}"
  shows "upstream_error st =
     Inr \<lparr>status = st, body = ErrorBody
       (if st = 401 then
          ''Invalid API key. Please check your OpenWeatherMap API key and ensure it'' @
          [CHR 0x27] @ ''s activated.''
        else if st = 404 then ''City not found. Please check the spelling and try again.''
        else if st = 429 then ''API rate limit exceeded. Please try again later.''
        else ''Weather service error ('' @ string_of_nat st @ ''). Please try again later.'')\<rparr>"
  using assms by (simp add: upstream_error_def json_response_def)

lemma upstream_error_Inl:
  "st < 200 \<or> 599 < st \<or> st = 304 \<Longrightarrow> \<exists>e. upstream_error st = Inl e"
  by (auto simp: upstream_error_def json_response_def)

lemma GET_valid:
  "q_city req = Some c \<Longrightarrow> c \<noteq> [] \<Longrightarrow> length k = 32 \<Longrightarrow>
   GET (Some k) net req = aggregate k net c (units_of req)"
  by (auto simp: GET_def)

lemma aggregate_not_ok:
  "fetch_weather net (weatherUrl c k u) = Response st txt js \<Longrightarrow> \<not> ok st \<Longrightarrow>
   response (aggregate k net c u) =
     (case upstream_error st of
        Inr resp \<Rightarrow> resp
      | Inl e \<Rightarrow> \<lparr>status = 500, body = ErrorBody
          ''Failed to fetch weather data. Please check your internet connection and try again.''\<rparr>) \<and>
   calls (aggregate k net c u) = [Fetch (weatherUrl c k u)]"
  by (simp add: aggregate_def Let_def return_response_def catch_all_response split: sum.splits)

lemma aggregate_success:
  assumes "fetch_weather net (weatherUrl c k u) = Response st txt (Some wd)" "ok st"
    and "transformedData u wd (fst (fetch_uvIndex net wd k))
           (fst (fetch_hourlyForecast net (forecastUrl c k u) u)) = Inr r"
  shows "response (aggregate k net c u) = \<lparr>status = 200, body = WeatherBody r\<rparr>"
    and "calls (aggregate k net c u) =
          [Fetch (weatherUrl c k u), Fetch (forecastUrl c k u),
           FetchUv (lat (coord wd)) (lon (coord wd)) k]"
  using assms by (simp_all add: aggregate_def Let_def return_response_def json_response_def)

lemma aggregate_WeatherBodyD:
  assumes "body (response (aggregate k net c u)) = WeatherBody r"
  shows "\<exists>st txt wd. fetch_weather net (weatherUrl c k u) = Response st txt (Some wd) \<and> ok st \<and>
           transformedData u wd (fst (fetch_uvIndex net wd k))
             (fst (fetch_hourlyForecast net (forecastUrl c k u) u)) = Inr r"
proof (cases "fetch_weather net (weatherUrl c k u)")
  case (Rejected e)
  with assms show ?thesis by (simp add: aggregate_def Let_def)
next
  case (Response st body_text js)
  show ?thesis
  proof (cases "ok st")
    case False
    from aggregate_not_ok [OF Response False] assms show ?thesis
      by (auto split: sum.splits dest: upstream_error_InrD)
  next
    case True
    with Response assms show ?thesis
      by (auto simp: aggregate_def Let_def return_response_def json_response_def
          split: option.splits sum.splits)
  qed
qed

lemma GET_WeatherBodyD:
  assumes "body (response (GET key net req)) = WeatherBody r"
  shows "\<exists>c k. q_city req = Some c \<and> c \<noteq> [] \<and> key = Some k \<and> length k = 32 \<and>
           body (response (aggregate k net c (units_of req))) = WeatherBody r"
  using assms
  by (auto simp: GET_def Let_def return_response_def json_response_def
      split: option.splits if_splits)

text \<open>No exception leaves the handler.\<close>

lemma aggregate_handled: "body (response (aggregate k net c u)) \<noteq> Unhandled e"
proof (cases "fetch_weather net (weatherUrl c k u)")
  case (Rejected x)
  then show ?thesis by (simp add: aggregate_def Let_def catch_all_response)
next
  case (Response st body_text js)
  show ?thesis
  proof (cases "ok st")
    case False
    from aggregate_not_ok [OF Response False] show ?thesis
      by (auto split: sum.splits dest: upstream_error_InrD)
  next
    case True
    with Response show ?thesis
      by (auto simp: aggregate_def Let_def return_response_def json_response_def
          catch_all_response split: option.splits sum.splits)
  qed
qed

lemma GET_handled: "body (response (GET key net req)) \<noteq> Unhandled e"
  by (auto simp: GET_def Let_def return_response_def json_response_def aggregate_handled
      split: option.splits)

text \<open>A successful response is the transformed payload of the current-conditions call.\<close>

lemma GET_success_record:
  assumes "record_of (GET key net req) = Some r"
    and "q_city req = Some c" "key = Some k"
  shows "\<exists>st txt wd. fetch_weather net (weatherUrl c k (units_of req)) = Response st txt (Some wd) \<and>
           ok st \<and>
           transformedData (units_of req) wd (fst (fetch_uvIndex net wd k))
             (fst (fetch_hourlyForecast net (forecastUrl c k (units_of req)) (units_of req))) =
           Inr r"
proof -
  from assms(1) have "body (response (GET key net req)) = WeatherBody r"
    by (simp add: record_of_Some_iff)
  from GET_WeatherBodyD [OF this] assms(2,3)
  have "body (response (aggregate k net c (units_of req))) = WeatherBody r" by auto
  then show ?thesis by (rule aggregate_WeatherBodyD)
qed

lemma transformedData_InrD:
  assumes "transformedData u wd uv hf = Inr r"
  shows "windSpeed r = Math_round (fst (convert_wind u wd))"
    and "windUnit r = snd (convert_wind u wd)"
    and "visibility r = Math_round (or_number (wd_visibility wd) 10000 /
                          (if u = ''imperial'' then 1609.34 else 1000))"
    and "visibilityUnit r = (if u = ''imperial'' then ''mi'' else ''km'')"
    and "tempUnit r = degree_sign @ (if u = ''imperial'' then ''F'' else ''C'')"
    and "units r = u" and "uvIndex r = uv" and "hourlyForecast r = hf"
  using assms by (auto simp: transformedData_def split: sum.splits)

lemma transformedData_total:
  assumes "weather wd \<noteq> []"
  shows "\<exists>r0. \<forall>uv hf. transformedData u wd uv hf = Inr (r0\<lparr>uvIndex := uv, hourlyForecast := hf\<rparr>)"
proof -
  from assms obtain w ws where w: "weather wd = w # ws" by (cases "weather wd") auto
  obtain r0 where "transformedData u wd 0 [] = Inr r0"
    by (simp add: transformedData_def weather0_def w)
  then have "\<forall>uv hf. transformedData u wd uv hf = Inr (r0\<lparr>uvIndex := uv, hourlyForecast := hf\<rparr>)"
    by (auto simp: transformedData_def weather0_def w)
  then show ?thesis ..
qed

lemma GET_record_exists:
  assumes "q_city req = Some c" "c \<noteq> []" "length k = 32"
    and "fetch_weather net (weatherUrl c k (units_of req)) = Response st txt (Some wd)"
    and "ok st" "weather wd \<noteq> []"
  shows "record_of (GET (Some k) net req) = Some (the (record_of (GET (Some k) net req)))"
proof -
  from transformedData_total [OF assms(6)] obtain r0 where
    "\<And>uv hf. transformedData (units_of req) wd uv hf =
        Inr (r0\<lparr>uvIndex := uv, hourlyForecast := hf\<rparr>)"
    by blast
  from aggregate_success(1) [OF assms(4,5) this] show ?thesis
    by (simp add: GET_valid [OF assms(1-3)] record_of_def)
qed

lemma fetch_hourlyForecast_failed:
  "failed (fetch_forecast net url) \<Longrightarrow> fst (fetch_hourlyForecast net url u) = []"
  by (auto simp: failed_def fetch_hourlyForecast_def split: fetch_result.splits)

lemma fetch_uvIndex_failed:
  "failed (fetch_uv net (lat (coord wd)) (lon (coord wd)) k) \<Longrightarrow> fst (fetch_uvIndex net wd k) = 0"
  by (auto simp: failed_def fetch_uvIndex_def split: fetch_result.splits)

lemma map_item_Inr: "fi_weather item = w # ws \<Longrightarrow> \<exists>h. map_item u item = Inr h"
  by (simp add: map_item_def weather0_def)

lemma map_item_InrD:
  assumes "map_item u item = Inr h"
  shows "time h = dt item"
    and "h_temperature h = Math_round (temp (fi_main item))"
    and "h_condition h = wi_main (hd (fi_weather item))"
    and "h_description h = wi_description (hd (fi_weather item))"
    and "h_iconCode h = wi_icon (hd (fi_weather item))"
    and "h_humidity h = mb_humidity (fi_main item)"
    and "h_windSpeed h =
           (if u = ''imperial'' then Math_round (wind_speed_or_0 (fi_wind item))
            else Math_round (wind_speed_or_0 (fi_wind item) * 3.6))"
    and "precipitation h = js_times (pop item) 100"
  using assms by (auto simp: map_item_def weather0_def split: list.splits)

lemma map_items_Inr:
  "\<forall>item \<in> set xs. fi_weather item \<noteq> [] \<Longrightarrow> \<exists>hs. map_items u xs = Inr hs"
proof (induction xs)
  case Nil
  show ?case by simp
next
  case (Cons x xs)
  then obtain hs where hs: "map_items u xs = Inr hs" by auto
  from Cons.prems obtain w ws where "fi_weather x = w # ws" by (cases "fi_weather x") auto
  from map_item_Inr [OF this] obtain h where "map_item u x = Inr h" by blast
  with hs show ?case by simp
qed

lemma map_items_InrD:
  "map_items u xs = Inr hs \<Longrightarrow> list_all2 (\<lambda>item h. map_item u item = Inr h) xs hs"
  by (induction xs arbitrary: hs) (auto split: sum.splits)

text \<open>
  When the forecast call succeeds and every entry kept has a weather element, the forecast
  section is the image of the first eight entries, in order.
\<close>

lemma fetch_hourlyForecast_entries:
  assumes "fetch_forecast net url = Response st txt (Some fd)" "ok st"
    and "\<forall>item \<in> set (take 8 (fc_list fd)). fi_weather item \<noteq> []"
  shows "length (fst (fetch_hourlyForecast net url u)) = min 8 (length (fc_list fd))"
    and "i < length (fst (fetch_hourlyForecast net url u)) \<Longrightarrow>
         map_item u (fc_list fd ! i) = Inr (fst (fetch_hourlyForecast net url u) ! i)"
proof -
  from map_items_Inr [OF assms(3)] obtain hs where
    hs: "map_items u (take 8 (fc_list fd)) = Inr hs" by blast
  with assms(1,2) have eq: "fst (fetch_hourlyForecast net url u) = hs"
    by (simp add: fetch_hourlyForecast_def)
  from map_items_InrD [OF hs]
  have all2: "list_all2 (\<lambda>item h. map_item u item = Inr h) (take 8 (fc_list fd)) hs" .
  then have len: "length hs = min 8 (length (fc_list fd))"
    by (auto dest: list_all2_lengthD simp: min.commute)
  with eq show "length (fst (fetch_hourlyForecast net url u)) = min 8 (length (fc_list fd))"
    by simp
  show "map_item u (fc_list fd ! i) = Inr (fst (fetch_hourlyForecast net url u) ! i)"
    if "i < length (fst (fetch_hourlyForecast net url u))"
  proof -
    from that eq len have i: "i < length hs" "i < 8" "i < length (fc_list fd)" by auto
    from all2 i(1) have "map_item u (take 8 (fc_list fd) ! i) = Inr (hs ! i)"
      by (rule list_all2_nthD2)
    with i eq show ?thesis by simp
  qed
qed

subsection \<open>Wind speed\<close>

text \<open>
  Claim C1. On every successful response the wind speed of the top-level record follows the
  unit rule: under imperial units \<open>windSpeed\<close> is the upstream speed rounded to the nearest
  integer and \<open>windUnit\<close> is "mph"; under metric units \<open>windSpeed\<close> is the upstream speed
  times 3.6, rounded, and \<open>windUnit\<close> is "km/h".
\<close>

theorem C1_wind_speed:
  assumes "record_of (GET key net req) = Some r"
    and "q_city req = Some c" "key = Some k"
    and "fetch_weather net (weatherUrl c k (units_of req)) = Response st txt (Some wd)"
    and "wind wd = Some \<lparr>speed = Some s\<rparr>"
  shows "(units_of req = ''imperial'' \<longrightarrow> windSpeed r = Math_round s \<and> windUnit r = ''mph'') \<and>
         (units_of req = ''metric'' \<longrightarrow>
            windSpeed r = Math_round (s * 3.6) \<and> windUnit r = ''km/h'')"
proof -
  from GET_success_record [OF assms(1-3)] assms(4) obtain uv hf where
    "transformedData (units_of req) wd uv hf = Inr r" by auto
  note td = transformedData_InrD [OF this]
  show ?thesis using assms(5) by (simp add: td convert_wind_def)
qed

text \<open>
  The theorem at an upstream speed of 10: 36 km/h for a metric request, 10 mph for a
  request that names no units.
\<close>

theorem C1_wind_speed_witness:
  "map_option windSpeed (record_of (GET (Some key0) net_ok (req0 (Some ''metric'')))) = Some 36 \<and>
   map_option windUnit (record_of (GET (Some key0) net_ok (req0 (Some ''metric'')))) =
     Some ''km/h'' \<and>
   map_option windSpeed (record_of (GET (Some key0) net_ok (req0 None))) = Some 10 \<and>
   map_option windUnit (record_of (GET (Some key0) net_ok (req0 None))) = Some ''mph''"
proof -
  let ?a = "GET (Some key0) net_ok (req0 (Some ''metric''))"
  let ?b = "GET (Some key0) net_ok (req0 None)"
  have a: "record_of ?a = Some (the (record_of ?a))" by code_simp
  have b: "record_of ?b = Some (the (record_of ?b))" by code_simp
  have c: "q_city (req0 u) = Some ''London''" for u by (simp add: req0_def)
  have w: "fetch_weather net_ok url = Response 200 [] (Some wd0)" for url
    by (simp add: net_ok_def const_net_def)
  have s: "wind wd0 = Some \<lparr>speed = Some 10\<rparr>" by (simp add: wd0_def)
  have ua: "units_of (req0 (Some ''metric'')) = ''metric''" by (simp add: units_of_def req0_def)
  have ub: "units_of (req0 None) = ''imperial''" by (simp add: units_of_def req0_def)
  have r1: "Math_round (10 * 3.6) = 36" by code_simp
  have r2: "Math_round 10 = 10" by code_simp
  from C1_wind_speed [OF a c refl w s] ua r1
  have "windSpeed (the (record_of ?a)) = 36 \<and> windUnit (the (record_of ?a)) = ''km/h''" by simp
  moreover from C1_wind_speed [OF b c refl w s] ub r2
  have "windSpeed (the (record_of ?b)) = 10 \<and> windUnit (the (record_of ?b)) = ''mph''" by simp
  ultimately show ?thesis using a b by (metis option.simps(9))
qed

subsection \<open>Visibility\<close>

text \<open>
  The visibility is the upstream value over 1609.34 or 1000, rounded, whenever the upstream
  value is present and not zero.
\<close>

lemma visibility_nonzero:
  assumes "record_of (GET key net req) = Some r"
    and "q_city req = Some c" "key = Some k"
    and "fetch_weather net (weatherUrl c k (units_of req)) = Response st txt (Some wd)"
    and "wd_visibility wd = Some v" "v \<noteq> 0"
  shows "visibility r = Math_round (v / (if units_of req = ''imperial'' then 1609.34 else 1000))"
    and "visibilityUnit r = (if units_of req = ''imperial'' then ''mi'' else ''km'')"
proof -
  from GET_success_record [OF assms(1-3)] assms(4) obtain uv hf where
    "transformedData (units_of req) wd uv hf = Inr r" by auto
  note td = transformedData_InrD [OF this]
  have v: "or_number (wd_visibility wd) 10000 = v" using assms(5,6) by (simp add: or_number_def)
  show "visibility r = Math_round (v / (if units_of req = ''imperial'' then 1609.34 else 1000))"
    unfolding td(3) v ..
  show "visibilityUnit r = (if units_of req = ''imperial'' then ''mi'' else ''km'')"
    by (rule td(4))
qed

text \<open>
  Claim C2. On every successful response \<open>visibility\<close> is the upstream visibility in meters
  divided by 1609.34 (imperial) or by 1000 (metric), rounded, with unit "mi" or "km".
  The handler reads the upstream value as \<open>weatherData.visibility || 10000\<close>, and 0 is
  falsy: an upstream visibility of 0 meters is reported as 6 mi (10 km under metric), where
  the conversion of 0 gives 0.
\<close>

theorem C2_zero_visibility:
  "map_option visibility (record_of (GET (Some key0) net_fog (req0 None))) = Some 6 \<and>
   map_option visibilityUnit (record_of (GET (Some key0) net_fog (req0 None))) = Some ''mi'' \<and>
   Math_round (0 / 1609.34) = 0 \<and>
   map_option visibility (record_of (GET (Some key0) net_fog (req0 (Some ''metric'')))) =
     Some 10 \<and>
   Math_round (0 / 1000) = 0"
  by code_simp

subsection \<open>Containment of the best-effort calls\<close>

text \<open>
  Claim C3. Whenever the current-conditions call succeeds, the response status is 200
  whatever the forecast and UV calls do. A failed forecast call (network error or
  non-success status) leaves \<open>hourlyForecast\<close> empty, a failed UV call leaves \<open>uvIndex\<close> at 0,
  and no behaviour of the two calls changes the status or any other field: the forecast
  call decides \<open>hourlyForecast\<close> only and the UV call \<open>uvIndex\<close> only.
\<close>

theorem C3_best_effort_contained:
  assumes "q_city req = Some c" "c \<noteq> []" "length k = 32"
    and "fetch_weather net (weatherUrl c k (units_of req)) = Response st txt (Some wd)"
    and "ok st" "weather wd \<noteq> []"
  shows "\<exists>r. response (GET (Some k) net req) = \<lparr>status = 200, body = WeatherBody r\<rparr> \<and>
      (failed (fetch_forecast net (forecastUrl c k (units_of req))) \<longrightarrow> hourlyForecast r = []) \<and>
      (failed (fetch_uv net (lat (coord wd)) (lon (coord wd)) k) \<longrightarrow> uvIndex r = 0) \<and>
      (\<forall>net'. fetch_weather net' = fetch_weather net \<longrightarrow>
         (\<exists>r'. response (GET (Some k) net' req) = \<lparr>status = 200, body = WeatherBody r'\<rparr> \<and>
            r'\<lparr>hourlyForecast := hourlyForecast r, uvIndex := uvIndex r\<rparr> = r \<and>
            (fetch_forecast net' = fetch_forecast net \<longrightarrow> hourlyForecast r' = hourlyForecast r) \<and>
            (fetch_uv net' = fetch_uv net \<longrightarrow> uvIndex r' = uvIndex r)))"
proof -
  let ?u = "units_of req"
  let ?hf = "\<lambda>n. fst (fetch_hourlyForecast n (forecastUrl c k ?u) ?u)"
  let ?uv = "\<lambda>n. fst (fetch_uvIndex n wd k)"
  from transformedData_total [OF assms(6)] obtain r0 where
    r0: "\<And>uv hf. transformedData ?u wd uv hf = Inr (r0\<lparr>uvIndex := uv, hourlyForecast := hf\<rparr>)"
    by blast
  have resp: "response (GET (Some k) n req) =
      \<lparr>status = 200, body = WeatherBody (r0\<lparr>uvIndex := ?uv n, hourlyForecast := ?hf n\<rparr>)\<rparr>"
    if "fetch_weather n = fetch_weather net" for n :: network
  proof -
    from that assms(4) have "fetch_weather n (weatherUrl c k ?u) = Response st txt (Some wd)"
      by simp
    from aggregate_success(1) [OF this assms(5) r0] show ?thesis
      by (simp add: GET_valid [OF assms(1-3)])
  qed
  let ?r = "r0\<lparr>uvIndex := ?uv net, hourlyForecast := ?hf net\<rparr>"
  have A: "response (GET (Some k) net req) = \<lparr>status = 200, body = WeatherBody ?r\<rparr>"
    by (rule resp) simp
  have B: "failed (fetch_forecast net (forecastUrl c k ?u)) \<longrightarrow> hourlyForecast ?r = []"
    by (simp add: fetch_hourlyForecast_failed)
  have C: "failed (fetch_uv net (lat (coord wd)) (lon (coord wd)) k) \<longrightarrow> uvIndex ?r = 0"
    by (simp add: fetch_uvIndex_failed)
  have D: "\<forall>net'. fetch_weather net' = fetch_weather net \<longrightarrow>
         (\<exists>r'. response (GET (Some k) net' req) = \<lparr>status = 200, body = WeatherBody r'\<rparr> \<and>
            r'\<lparr>hourlyForecast := hourlyForecast ?r, uvIndex := uvIndex ?r\<rparr> = ?r \<and>
            (fetch_forecast net' = fetch_forecast net \<longrightarrow> hourlyForecast r' = hourlyForecast ?r) \<and>
            (fetch_uv net' = fetch_uv net \<longrightarrow> uvIndex r' = uvIndex ?r))"
  proof (intro allI impI)
    fix n :: network
    assume n: "fetch_weather n = fetch_weather net"
    let ?r' = "r0\<lparr>uvIndex := ?uv n, hourlyForecast := ?hf n\<rparr>"
    have 1: "response (GET (Some k) n req) = \<lparr>status = 200, body = WeatherBody ?r'\<rparr>"
      by (rule resp [OF n])
    have 2: "?r'\<lparr>hourlyForecast := hourlyForecast ?r, uvIndex := uvIndex ?r\<rparr> = ?r"
      by simp
    have 3: "fetch_forecast n = fetch_forecast net \<longrightarrow> hourlyForecast ?r' = hourlyForecast ?r"
      by (simp add: fetch_hourlyForecast_def)
    have 4: "fetch_uv n = fetch_uv net \<longrightarrow> uvIndex ?r' = uvIndex ?r"
      by (simp add: fetch_uvIndex_def)
    show "\<exists>r'. response (GET (Some k) n req) = \<lparr>status = 200, body = WeatherBody r'\<rparr> \<and>
            r'\<lparr>hourlyForecast := hourlyForecast ?r, uvIndex := uvIndex ?r\<rparr> = ?r \<and>
            (fetch_forecast n = fetch_forecast net \<longrightarrow> hourlyForecast r' = hourlyForecast ?r) \<and>
            (fetch_uv n = fetch_uv net \<longrightarrow> uvIndex r' = uvIndex ?r)"
      by (rule exI [of _ ?r']) (rule conjI 1 2 3 4)+
  qed
  show ?thesis
    by (rule exI [of _ ?r]) (rule conjI A B C D)+
qed

text \<open>
  The theorem on a network whose forecast call rejects and whose UV call answers 500,
  compared with the network on which both succeed.
\<close>

theorem C3_best_effort_contained_witness:
  "status (response (GET (Some key0) net_down (req0 None))) = 200 \<and>
   map_option hourlyForecast (record_of (GET (Some key0) net_down (req0 None))) = Some [] \<and>
   map_option uvIndex (record_of (GET (Some key0) net_down (req0 None))) = Some 0 \<and>
   map_option (\<lambda>r. r\<lparr>hourlyForecast := [], uvIndex := 0\<rparr>)
     (record_of (GET (Some key0) net_ok (req0 None))) =
     record_of (GET (Some key0) net_down (req0 None))"
proof -
  have h1: "q_city (req0 None) = Some ''London''" by (simp add: req0_def)
  have h2: "''London'' \<noteq> []" by simp
  have h3: "length key0 = 32" by (simp add: key0_def)
  have h4: "fetch_weather net_down (weatherUrl ''London'' key0 (units_of (req0 None))) =
      Response 200 [] (Some wd0)" by (simp add: net_down_def const_net_def)
  have h5: "ok 200" by (simp add: ok_def)
  have h6: "weather wd0 \<noteq> []" by (simp add: wd0_def)
  have f1: "failed (fetch_forecast net_down (forecastUrl ''London'' key0 (units_of (req0 None))))"
    by (simp add: net_down_def const_net_def failed_def)
  have f2: "failed (fetch_uv net_down (lat (coord wd0)) (lon (coord wd0)) key0)"
    by (simp add: net_down_def const_net_def failed_def ok_def)
  have same: "fetch_weather net_ok = fetch_weather net_down"
    by (simp add: net_down_def net_ok_def const_net_def)
  from C3_best_effort_contained [OF h1 h2 h3 h4 h5 h6] f1 f2 same
  obtain r r' where
    "response (GET (Some key0) net_down (req0 None)) = \<lparr>status = 200, body = WeatherBody r\<rparr>"
    "hourlyForecast r = []" "uvIndex r = 0"
    "response (GET (Some key0) net_ok (req0 None)) = \<lparr>status = 200, body = WeatherBody r'\<rparr>"
    "r'\<lparr>hourlyForecast := hourlyForecast r, uvIndex := uvIndex r\<rparr> = r"
    by blast
  then show ?thesis by (simp add: record_of_def)
qed

subsection \<open>The hourly forecast\<close>

text \<open>
  Claim C4. When the forecast call succeeds, \<open>hourlyForecast\<close> is the first 8 entries of
  the upstream list, in order (all of them when the list is shorter, so never more than
  8), each mapped field by field: the temperature rounded, the wind speed converted by the
  unit rule of the top-level record, and the precipitation equal to the upstream \<open>pop\<close>
  times 100, not rounded (the product \<open>item.pop * 100\<close> of the two binary64 values, as it
  is).
\<close>

theorem C4_hourly_forecast:
  assumes "record_of (GET key net req) = Some r"
    and "q_city req = Some c" "key = Some k"
    and "fetch_forecast net (forecastUrl c k (units_of req)) = Response st txt (Some fd)"
    and "ok st"
    and "\<forall>item \<in> set (take 8 (fc_list fd)). fi_weather item \<noteq> []"
  shows "length (hourlyForecast r) = min 8 (length (fc_list fd)) \<and>
    length (hourlyForecast r) \<le> 8 \<and>
    (\<forall>i < length (hourlyForecast r).
       time (hourlyForecast r ! i) = dt (fc_list fd ! i) \<and>
       h_temperature (hourlyForecast r ! i) = Math_round (temp (fi_main (fc_list fd ! i))) \<and>
       h_condition (hourlyForecast r ! i) = wi_main (hd (fi_weather (fc_list fd ! i))) \<and>
       h_description (hourlyForecast r ! i) = wi_description (hd (fi_weather (fc_list fd ! i))) \<and>
       h_iconCode (hourlyForecast r ! i) = wi_icon (hd (fi_weather (fc_list fd ! i))) \<and>
       h_humidity (hourlyForecast r ! i) = mb_humidity (fi_main (fc_list fd ! i)) \<and>
       h_windSpeed (hourlyForecast r ! i) =
         (if units_of req = ''imperial''
          then Math_round (wind_speed_or_0 (fi_wind (fc_list fd ! i)))
          else Math_round (wind_speed_or_0 (fi_wind (fc_list fd ! i)) * 3.6)) \<and>
       precipitation (hourlyForecast r ! i) = js_times (pop (fc_list fd ! i)) 100)"
proof -
  let ?u = "units_of req"
  let ?hs = "fst (fetch_hourlyForecast net (forecastUrl c k ?u) ?u)"
  from GET_success_record [OF assms(1-3)] obtain wd uv where
    "transformedData ?u wd uv ?hs = Inr r" by blast
  then have hf: "hourlyForecast r = ?hs" by (rule transformedData_InrD)
  note entries = fetch_hourlyForecast_entries [OF assms(4-6), where u = ?u]
  have len: "length ?hs = min 8 (length (fc_list fd))" by (rule entries(1))
  have "\<forall>i < length ?hs.
       time (?hs ! i) = dt (fc_list fd ! i) \<and>
       h_temperature (?hs ! i) = Math_round (temp (fi_main (fc_list fd ! i))) \<and>
       h_condition (?hs ! i) = wi_main (hd (fi_weather (fc_list fd ! i))) \<and>
       h_description (?hs ! i) = wi_description (hd (fi_weather (fc_list fd ! i))) \<and>
       h_iconCode (?hs ! i) = wi_icon (hd (fi_weather (fc_list fd ! i))) \<and>
       h_humidity (?hs ! i) = mb_humidity (fi_main (fc_list fd ! i)) \<and>
       h_windSpeed (?hs ! i) =
         (if ?u = ''imperial''
          then Math_round (wind_speed_or_0 (fi_wind (fc_list fd ! i)))
          else Math_round (wind_speed_or_0 (fi_wind (fc_list fd ! i)) * 3.6)) \<and>
       precipitation (?hs ! i) = js_times (pop (fc_list fd ! i)) 100"
  proof (intro allI impI)
    fix i assume "i < length ?hs"
    from map_item_InrD [OF entries(2) [OF this]]
    show "time (?hs ! i) = dt (fc_list fd ! i) \<and>
       h_temperature (?hs ! i) = Math_round (temp (fi_main (fc_list fd ! i))) \<and>
       h_condition (?hs ! i) = wi_main (hd (fi_weather (fc_list fd ! i))) \<and>
       h_description (?hs ! i) = wi_description (hd (fi_weather (fc_list fd ! i))) \<and>
       h_iconCode (?hs ! i) = wi_icon (hd (fi_weather (fc_list fd ! i))) \<and>
       h_humidity (?hs ! i) = mb_humidity (fi_main (fc_list fd ! i)) \<and>
       h_windSpeed (?hs ! i) =
         (if ?u = ''imperial''
          then Math_round (wind_speed_or_0 (fi_wind (fc_list fd ! i)))
          else Math_round (wind_speed_or_0 (fi_wind (fc_list fd ! i)) * 3.6)) \<and>
       precipitation (?hs ! i) = js_times (pop (fc_list fd ! i)) 100"
      by (intro conjI)
  qed
  with len show ?thesis unfolding hf by simp
qed

text \<open>
  The theorem on a forecast of ten entries under metric units: eight are kept, and the last
  one kept (temperature 19.5, wind 2.5 m/s, pop 0.29) reads 20, 9 km/h and the binary64
  product of 0.29 and 100, which is 8162774324609023 / 2 ^ 48 and prints as
  28.999999999999996.
\<close>

theorem C4_hourly_forecast_witness:
  "map_option (\<lambda>r. length (hourlyForecast r))
     (record_of (GET (Some key0) net_rain (req0 (Some ''metric'')))) = Some 8 \<and>
   map_option (\<lambda>r. h_temperature (hourlyForecast r ! 7))
     (record_of (GET (Some key0) net_rain (req0 (Some ''metric'')))) = Some 20 \<and>
   map_option (\<lambda>r. h_windSpeed (hourlyForecast r ! 7))
     (record_of (GET (Some key0) net_rain (req0 (Some ''metric'')))) = Some 9 \<and>
   map_option (\<lambda>r. precipitation (hourlyForecast r ! 7))
     (record_of (GET (Some key0) net_rain (req0 (Some ''metric'')))) =
     Some (8162774324609023 / 281474976710656)"
proof -
  let ?q = "req0 (Some ''metric'')"
  let ?out = "GET (Some key0) net_rain ?q"
  let ?r = "the (record_of ?out)"
  have h2: "q_city ?q = Some ''London''" by (simp add: req0_def)
  have ne: "''London'' \<noteq> []" by simp
  have k: "length key0 = 32" by (simp add: key0_def)
  have w: "fetch_weather net_rain (weatherUrl ''London'' key0 (units_of ?q)) =
      Response 200 [] (Some wd0)" by (simp add: net_rain_def const_net_def)
  have h3: "fetch_forecast net_rain (forecastUrl ''London'' key0 (units_of ?q)) =
      Response 200 [] (Some fd_rain)" by (simp add: net_rain_def const_net_def)
  have h4: "ok 200" by (simp add: ok_def)
  have nw: "weather wd0 \<noteq> []" by (simp add: wd0_def)
  have h1: "record_of ?out = Some ?r" by (rule GET_record_exists [OF h2 ne k w h4 nw])
  have h5: "\<forall>item \<in> set (take 8 (fc_list fd_rain)). fi_weather item \<noteq> []"
    by (auto simp: fd_rain_def item_at_def dest!: in_set_takeD)
  have len: "length (fc_list fd_rain) = 10" by (simp add: fd_rain_def)
  have u: "units_of ?q = ''metric''" by (simp add: units_of_def req0_def)
  have it: "fc_list fd_rain ! 7 = (item_at 7)\<lparr>pop := double_of 0.29\<rparr>"
    by (simp add: fd_rain_def del: upt.simps)
  have v1: "Math_round (temp (fi_main (item_at 7))) = 20" by code_simp
  have v2: "Math_round (wind_speed_or_0 (fi_wind (item_at 7)) * 18 / 5) = 9" by code_simp
  have v3: "js_times (double_of 0.29) 100 = 8162774324609023 / 281474976710656" by code_simp
  from C4_hourly_forecast [OF h1 h2 refl h3 h4 h5]
  have "length (hourlyForecast ?r) = 8 \<and>
        time (hourlyForecast ?r ! 7) = dt (fc_list fd_rain ! 7) \<and>
        h_temperature (hourlyForecast ?r ! 7) = Math_round (temp (fi_main (fc_list fd_rain ! 7))) \<and>
        h_windSpeed (hourlyForecast ?r ! 7) =
          Math_round (wind_speed_or_0 (fi_wind (fc_list fd_rain ! 7)) * 3.6) \<and>
        precipitation (hourlyForecast ?r ! 7) = js_times (pop (fc_list fd_rain ! 7)) 100"
    by (simp add: len u)
  then have "length (hourlyForecast ?r) = 8 \<and> h_temperature (hourlyForecast ?r ! 7) = 20 \<and>
        h_windSpeed (hourlyForecast ?r ! 7) = 9 \<and>
        precipitation (hourlyForecast ?r ! 7) = 8162774324609023 / 281474976710656"
    unfolding it using v1 v2 v3 by simp
  then show ?thesis using h1 by (metis option.simps(9))
qed

subsection \<open>Precondition checks\<close>

text \<open>
  Claim C5, as the handler has it. For every request whose city parameter is absent or the
  empty string, the response has status 400 and a body that is an error message, and no
  upstream call is made, whatever the credential is. The handler does not trim the city.
\<close>

theorem C5_missing_city:
  assumes "q_city req = None \<or> q_city req = Some []"
  shows "response (GET key net req) =
           \<lparr>status = 400, body = ErrorBody ''City parameter is required''\<rparr> \<and>
         calls (GET key net req) = []"
  using assms by (auto simp: GET_def return_response_def json_response_def)

text \<open>The theorem at an empty city and at an absent one.\<close>

theorem C5_missing_city_witness:
  "status (response (GET (Some key0) net_ok \<lparr>q_city = Some [], q_units = Some ''metric''\<rparr>)) = 400 \<and>
   calls (GET (Some key0) net_ok \<lparr>q_city = Some [], q_units = Some ''metric''\<rparr>) = [] \<and>
   status (response (GET None net_ok \<lparr>q_city = None, q_units = None\<rparr>)) = 400"
  using C5_missing_city [of "\<lparr>q_city = Some [], q_units = Some ''metric''\<rparr>" "Some key0" net_ok]
    C5_missing_city [of "\<lparr>q_city = None, q_units = None\<rparr>" None net_ok]
  by simp

text \<open>
  A city of two spaces is empty after trimming, yet the handler sends it upstream: on a
  healthy upstream it answers 200 after all three calls, and when the upstream answers
  404 it passes that status on.
\<close>

theorem C5_whitespace_city_counterexample:
  "trim ''  '' = [] \<and>
   status (response (GET (Some key0) net_ok \<lparr>q_city = Some ''  '', q_units = None\<rparr>)) = 200 \<and>
   length (calls (GET (Some key0) net_ok \<lparr>q_city = Some ''  '', q_units = None\<rparr>)) = 3 \<and>
   status (response (GET (Some key0) (net_status 404) \<lparr>q_city = Some ''  '', q_units = None\<rparr>)) =
     404 \<and>
   calls (GET (Some key0) (net_status 404) \<lparr>q_city = Some ''  '', q_units = None\<rparr>) =
     [Fetch (''https://api.openweathermap.org/data/2.5/weather?q=%20%20&appid='' @
             ''0123456789abcdef0123456789abcdef'' @ ''&units=imperial'')]"
  by code_simp

text \<open>
  Claim C6, as the handler has it. For every request with a non-empty city, an absent
  credential or one whose length is not 32 gives status 500 with an error body, and no
  upstream call is made. The city is checked first.
\<close>

theorem C6_misconfigured:
  assumes "q_city req = Some c" "c \<noteq> []"
    and "key = None \<or> (\<exists>k. key = Some k \<and> length k \<noteq> 32)"
  shows "status (response (GET key net req)) = 500 \<and>
         (\<exists>msg. body (response (GET key net req)) = ErrorBody msg) \<and>
         calls (GET key net req) = []"
  using assms by (auto simp: GET_def return_response_def json_response_def)

text \<open>The theorem at an absent credential and at one of five characters.\<close>

theorem C6_misconfigured_witness:
  "status (response (GET None net_ok (req0 None))) = 500 \<and>
   calls (GET None net_ok (req0 None)) = [] \<and>
   status (response (GET (Some ''short'') net_ok (req0 None))) = 500 \<and>
   calls (GET (Some ''short'') net_ok (req0 None)) = []"
proof -
  have c: "q_city (req0 None) = Some ''London''" by (simp add: req0_def)
  have ne: "''London'' \<noteq> []" by simp
  have k1: "(None :: string option) = None \<or> (\<exists>k. None = Some k \<and> length k \<noteq> 32)" by simp
  have k2: "Some ''short'' = None \<or> (\<exists>k. Some ''short'' = Some k \<and> length k \<noteq> 32)" by simp
  from C6_misconfigured [OF c ne k1] C6_misconfigured [OF c ne k2]
  show ?thesis by simp
qed

text \<open>With no credential and no city the handler answers 400, not 500.\<close>

theorem C6_missing_city_counterexample:
  "status (response (GET None net_ok \<lparr>q_city = None, q_units = None\<rparr>)) = 400"
  by (simp add: GET_def return_response_def json_response_def)

subsection \<open>Errors of the mandatory call\<close>

text \<open>
  Claim C7, as the handler has it. For every non-success status of the current-conditions
  call the handler stops at once: the body is only an error message and no further
  upstream call is made. When the status is one that a response with a body can carry
  (200..599 other than 304), the response carries that status (401, 404, 429 and any other
  alike), with the message that mentions the spelling for 404 and the generic message
  with the status for a status other than 401, 404 and 429. For any other non-success
  status (below 200, above 599, or 304) building the response throws inside the \<open>try\<close>,
  and the handler answers 500 with its fetch-failure message.
\<close>

theorem C7_upstream_status:
  assumes "q_city req = Some c" "c \<noteq> []" "length k = 32"
    and "fetch_weather net (weatherUrl c k (units_of req)) = Response st txt js"
    and "\<not> ok st"
  shows "(200 \<le> st \<and> st \<le> 599 \<and> st \<noteq> 304 \<longrightarrow>
        status (response (GET (Some k) net req)) = st \<and>
        (\<exists>msg. body (response (GET (Some k) net req)) = ErrorBody msg \<and>
           (st = 404 \<longrightarrow>
              msg = ''City not found. Please check the spelling and try again.'' \<and>
              sublist ''spelling'' msg) \<and>
           (st \<notin> {401, 404, 429} \<longrightarrow>
              msg =
                ''Weather service error ('' @ string_of_nat st @ ''). Please try again later.''))) \<and>
     (st < 200 \<or> 599 < st \<or> st = 304 \<longrightarrow>
        response (GET (Some k) net req) =
          \<lparr>status = 500, body = ErrorBody
            ''Failed to fetch weather data. Please check your internet connection and try again.''\<rparr>) \<and>
     (\<exists>msg. body (response (GET (Some k) net req)) = ErrorBody msg) \<and>
     calls (GET (Some k) net req) = [Fetch (weatherUrl c k (units_of req))]"
proof -
  let ?out = "GET (Some k) net req"
  have out: "?out = aggregate k net c (units_of req)" by (rule GET_valid [OF assms(1-3)])
  note agg = aggregate_not_ok [OF assms(4,5), folded out]
  have A: "200 \<le> st \<and> st \<le> 599 \<and> st \<noteq> 304 \<longrightarrow>
        status (response ?out) = st \<and>
        (\<exists>msg. body (response ?out) = ErrorBody msg \<and>
           (st = 404 \<longrightarrow>
              msg = ''City not found. Please check the spelling and try again.'' \<and>
              sublist ''spelling'' msg) \<and>
           (st \<notin> {401, 404, 429} \<longrightarrow>
              msg =
                ''Weather service error ('' @ string_of_nat st @ ''). Please try again later.''))"
  proof
    assume "200 \<le> st \<and> st \<le> 599 \<and> st \<noteq> 304"
    with assms(5) have "200 \<le> st" "st \<le> 599" "st \<notin> {204, 205, 304}"
      by (auto simp: ok_def)
    from upstream_error_Inr [OF this] agg spelling_mentioned
    show "status (response ?out) = st \<and>
        (\<exists>msg. body (response ?out) = ErrorBody msg \<and>
           (st = 404 \<longrightarrow>
              msg = ''City not found. Please check the spelling and try again.'' \<and>
              sublist ''spelling'' msg) \<and>
           (st \<notin> {401, 404, 429} \<longrightarrow>
              msg =
                ''Weather service error ('' @ string_of_nat st @ ''). Please try again later.''))"
      by simp
  qed
  have B: "st < 200 \<or> 599 < st \<or> st = 304 \<longrightarrow>
        response ?out =
          \<lparr>status = 500, body = ErrorBody
            ''Failed to fetch weather data. Please check your internet connection and try again.''\<rparr>"
  proof
    assume "st < 200 \<or> 599 < st \<or> st = 304"
    from upstream_error_Inl [OF this] obtain e where "upstream_error st = Inl e" ..
    with agg show "response ?out =
          \<lparr>status = 500, body = ErrorBody
            ''Failed to fetch weather data. Please check your internet connection and try again.''\<rparr>"
      by simp
  qed
  have C: "\<exists>msg. body (response ?out) = ErrorBody msg"
    using agg by (auto split: sum.splits dest: upstream_error_InrD)
  have D: "calls ?out = [Fetch (weatherUrl c k (units_of req))]"
    using agg by simp
  show ?thesis by (intro conjI) (rule A B C D)+
qed

text \<open>The theorem at the statuses 404, 503, 401, 429 and 304.\<close>

theorem C7_upstream_status_witness:
  "status (response (GET (Some key0) (net_status 404) (req0 None))) = 404 \<and>
   body (response (GET (Some key0) (net_status 404) (req0 None))) =
     ErrorBody ''City not found. Please check the spelling and try again.'' \<and>
   status (response (GET (Some key0) (net_status 503) (req0 None))) = 503 \<and>
   body (response (GET (Some key0) (net_status 503) (req0 None))) =
     ErrorBody ''Weather service error (503). Please try again later.'' \<and>
   status (response (GET (Some key0) (net_status 401) (req0 None))) = 401 \<and>
   status (response (GET (Some key0) (net_status 429) (req0 None))) = 429 \<and>
   status (response (GET (Some key0) (net_status 304) (req0 None))) = 500"
proof -
  have c: "q_city (req0 None) = Some ''London''" by (simp add: req0_def)
  have ne: "''London'' \<noteq> []" by simp
  have k: "length key0 = 32" by (simp add: key0_def)
  have w: "fetch_weather (net_status st) (weatherUrl ''London'' key0 (units_of (req0 None))) =
      Response st ''{}'' None" for st
    by (simp add: net_status_def const_net_def)
  have n: "\<not> ok 404" "\<not> ok 503" "\<not> ok 401" "\<not> ok 429" "\<not> ok 304"
    by (simp_all add: ok_def)
  have s: "string_of_nat 503 = ''503''" by code_simp
  from C7_upstream_status [OF c ne k w n(1)] C7_upstream_status [OF c ne k w n(2)]
    C7_upstream_status [OF c ne k w n(3)] C7_upstream_status [OF c ne k w n(4)]
    C7_upstream_status [OF c ne k w n(5)] s
  show ?thesis by auto
qed

text \<open>
  The upstream statuses 304 and 999 are not successes, and the handler answers 500 with
  the fetch-failure message instead of passing them on.
\<close>

theorem C7_status_304_counterexample:
  "\<not> ok 304 \<and>
   response (GET (Some key0) (net_status 304) (req0 None)) =
     \<lparr>status = 500, body = ErrorBody
       ''Failed to fetch weather data. Please check your internet connection and try again.''\<rparr> \<and>
   \<not> ok 999 \<and>
   status (response (GET (Some key0) (net_status 999) (req0 None))) = 500"
  by code_simp

subsection \<open>The credential in the console messages\<close>

text \<open>
  Claim C8. No console message ever contains the raw credential: every logged URL has the
  credential replaced by a placeholder. The handler redacts with
  \<open>url.replace(OPENWEATHER_API_KEY, "[API_KEY]")\<close>, which replaces the first occurrence
  only. For a request whose city is the credential itself, the first occurrence is the
  \<open>q\<close> parameter, and the message "Fetching weather from:" carries the \<open>appid\<close>
  parameter with the raw credential; for a request whose units are the credential, the
  raw credential stays in the \<open>units\<close> parameter of the logged URL.
\<close>

theorem C8_credential_logged:
  "hd (logs (GET (Some key0) net_ok \<lparr>q_city = Some key0, q_units = None\<rparr>)) =
     (Console_log, ''Fetching weather from:'',
      Str (''https://api.openweathermap.org/data/2.5/weather?q=[API_KEY]&appid='' @
           ''0123456789abcdef0123456789abcdef'' @ ''&units=imperial'')) \<and>
   key0 = ''0123456789abcdef0123456789abcdef'' \<and>
   sublist key0
     (''https://api.openweathermap.org/data/2.5/weather?q=[API_KEY]&appid='' @
      ''0123456789abcdef0123456789abcdef'' @ ''&units=imperial'') \<and>
   logs (GET (Some key0) net_ok \<lparr>q_city = Some ''London'', q_units = Some key0\<rparr>) ! 1 =
     (Console_log, ''Fetching forecast from:'',
      Str (''https://api.openweathermap.org/data/2.5/forecast?q=London&appid=[API_KEY]&units='' @
           ''0123456789abcdef0123456789abcdef''))"
  by code_simp

subsection \<open>Defaults and the units parameter\<close>

text \<open>
  Claim C9. When the current-conditions payload has no visibility field, the handler
  converts a default of 10000 meters: the successful response reports 6 "mi" under
  imperial units and 10 "km" under metric units.
\<close>

theorem C9_default_visibility:
  assumes "record_of (GET key net req) = Some r"
    and "q_city req = Some c" "key = Some k"
    and "fetch_weather net (weatherUrl c k (units_of req)) = Response st txt (Some wd)"
    and "wd_visibility wd = None"
  shows "(units_of req = ''imperial'' \<longrightarrow>
            visibility r = Math_round (10000 / 1609.34) \<and> visibility r = 6 \<and>
            visibilityUnit r = ''mi'') \<and>
         (units_of req = ''metric'' \<longrightarrow>
            visibility r = Math_round (10000 / 1000) \<and> visibility r = 10 \<and>
            visibilityUnit r = ''km'')"
proof -
  from GET_success_record [OF assms(1-3)] assms(4) obtain uv hf where
    "transformedData (units_of req) wd uv hf = Inr r" by auto
  note td = transformedData_InrD [OF this]
  have v: "or_number (wd_visibility wd) 10000 = 10000" by (simp add: assms(5) or_number_def)
  show ?thesis unfolding td(3,4) v using round_miles round_km by simp
qed

text \<open>The theorem on a payload without visibility, for both unit systems.\<close>

theorem C9_default_visibility_witness:
  "map_option visibility (record_of (GET (Some key0) net_novis (req0 None))) = Some 6 \<and>
   map_option visibilityUnit (record_of (GET (Some key0) net_novis (req0 None))) = Some ''mi'' \<and>
   map_option visibility (record_of (GET (Some key0) net_novis (req0 (Some ''metric'')))) =
     Some 10 \<and>
   map_option visibilityUnit (record_of (GET (Some key0) net_novis (req0 (Some ''metric'')))) =
     Some ''km''"
proof -
  let ?a = "GET (Some key0) net_novis (req0 None)"
  let ?b = "GET (Some key0) net_novis (req0 (Some ''metric''))"
  have a: "record_of ?a = Some (the (record_of ?a))" by code_simp
  have b: "record_of ?b = Some (the (record_of ?b))" by code_simp
  have c: "q_city (req0 u) = Some ''London''" for u by (simp add: req0_def)
  have w: "fetch_weather net_novis url = Response 200 [] (Some (wd0\<lparr>wd_visibility := None\<rparr>))"
    for url by (simp add: net_novis_def const_net_def)
  have v: "wd_visibility (wd0\<lparr>wd_visibility := None\<rparr>) = None" by simp
  have ua: "units_of (req0 None) = ''imperial''" by (simp add: units_of_def req0_def)
  have ub: "units_of (req0 (Some ''metric'')) = ''metric''" by (simp add: units_of_def req0_def)
  from C9_default_visibility [OF a c refl w v] ua
  have "visibility (the (record_of ?a)) = 6 \<and> visibilityUnit (the (record_of ?a)) = ''mi''"
    by simp
  moreover from C9_default_visibility [OF b c refl w v] ub
  have "visibility (the (record_of ?b)) = 10 \<and> visibilityUnit (the (record_of ?b)) = ''km''"
    by simp
  ultimately show ?thesis using a b by (metis option.simps(9))
qed

text \<open>
  Claim C10. The units parameter is never validated. It defaults to "imperial" only when
  absent or empty; any other value is put as it is into the URLs of the upstream calls and
  into the \<open>units\<close> field of the response, the request succeeds, and every value other
  than "imperial" is treated as metric: wind speed times 3.6 with "km/h" (in the top-level
  record and in every forecast entry), visibility over 1000 with "km", and the
  temperature unit of degrees Celsius.
\<close>

theorem C10_units_not_validated:
  assumes "q_city req = Some c" "c \<noteq> []" "length k = 32"
    and "fetch_weather net (weatherUrl c k (units_of req)) = Response st txt (Some wd)"
    and "ok st" "weather wd \<noteq> []"
  shows "(q_units req = None \<or> q_units req = Some [] \<longrightarrow> units_of req = ''imperial'') \<and>
    (\<forall>u. q_units req = Some u \<and> u \<noteq> [] \<longrightarrow> units_of req = u) \<and>
    calls (GET (Some k) net req) =
      [Fetch (OPENWEATHER_BASE_URL @ ''/weather?q='' @ encodeURIComponent c @ ''&appid='' @ k @
              ''&units='' @ units_of req),
       Fetch (OPENWEATHER_BASE_URL @ ''/forecast?q='' @ encodeURIComponent c @ ''&appid='' @ k @
              ''&units='' @ units_of req),
       FetchUv (lat (coord wd)) (lon (coord wd)) k] \<and>
    (\<exists>r. response (GET (Some k) net req) = \<lparr>status = 200, body = WeatherBody r\<rparr> \<and>
       units r = units_of req \<and>
       (units_of req \<noteq> ''imperial'' \<longrightarrow>
          windSpeed r = Math_round (wind_speed_or_0 (wind wd) * 3.6) \<and> windUnit r = ''km/h'' \<and>
          visibility r = Math_round (or_number (wd_visibility wd) 10000 / 1000) \<and>
          visibilityUnit r = ''km'' \<and> tempUnit r = degree_sign @ ''C'' \<and>
          (\<forall>st' txt' fd.
             fetch_forecast net (forecastUrl c k (units_of req)) = Response st' txt' (Some fd) \<and>
             ok st' \<and> (\<forall>item \<in> set (take 8 (fc_list fd)). fi_weather item \<noteq> []) \<longrightarrow>
             (\<forall>i < length (hourlyForecast r).
                h_windSpeed (hourlyForecast r ! i) =
                  Math_round (wind_speed_or_0 (fi_wind (fc_list fd ! i)) * 3.6)))))"
proof -
  let ?u = "units_of req"
  let ?hs = "fst (fetch_hourlyForecast net (forecastUrl c k ?u) ?u)"
  from transformedData_total [OF assms(6)] obtain r0 where
    r0: "\<And>uv hf. transformedData ?u wd uv hf = Inr (r0\<lparr>uvIndex := uv, hourlyForecast := hf\<rparr>)"
    by blast
  let ?r = "r0\<lparr>uvIndex := fst (fetch_uvIndex net wd k), hourlyForecast := ?hs\<rparr>"
  note td = transformedData_InrD [OF r0]
  have A: "q_units req = None \<or> q_units req = Some [] \<longrightarrow> ?u = ''imperial''"
    by (auto simp: units_of_def)
  have B: "\<forall>u. q_units req = Some u \<and> u \<noteq> [] \<longrightarrow> ?u = u"
    by (auto simp: units_of_def)
  have C: "calls (GET (Some k) net req) =
      [Fetch (OPENWEATHER_BASE_URL @ ''/weather?q='' @ encodeURIComponent c @ ''&appid='' @ k @
              ''&units='' @ ?u),
       Fetch (OPENWEATHER_BASE_URL @ ''/forecast?q='' @ encodeURIComponent c @ ''&appid='' @ k @
              ''&units='' @ ?u),
       FetchUv (lat (coord wd)) (lon (coord wd)) k]"
    using aggregate_success(2) [OF assms(4,5) r0]
    by (simp add: GET_valid [OF assms(1-3)] weatherUrl_def forecastUrl_def)
  have D1: "response (GET (Some k) net req) = \<lparr>status = 200, body = WeatherBody ?r\<rparr>"
    using aggregate_success(1) [OF assms(4,5) r0] by (simp add: GET_valid [OF assms(1-3)])
  have D2: "units ?r = ?u" by (rule td)
  have hf: "hourlyForecast ?r = ?hs" by simp
  have D3: "?u \<noteq> ''imperial'' \<longrightarrow>
          windSpeed ?r = Math_round (wind_speed_or_0 (wind wd) * 3.6) \<and> windUnit ?r = ''km/h'' \<and>
          visibility ?r = Math_round (or_number (wd_visibility wd) 10000 / 1000) \<and>
          visibilityUnit ?r = ''km'' \<and> tempUnit ?r = degree_sign @ ''C'' \<and>
          (\<forall>st' txt' fd.
             fetch_forecast net (forecastUrl c k ?u) = Response st' txt' (Some fd) \<and>
             ok st' \<and> (\<forall>item \<in> set (take 8 (fc_list fd)). fi_weather item \<noteq> []) \<longrightarrow>
             (\<forall>i < length (hourlyForecast ?r).
                h_windSpeed (hourlyForecast ?r ! i) =
                  Math_round (wind_speed_or_0 (fi_wind (fc_list fd ! i)) * 3.6)))"
  proof
    assume m: "?u \<noteq> ''imperial''"
    have top: "windSpeed ?r = Math_round (wind_speed_or_0 (wind wd) * 3.6)"
      "windUnit ?r = ''km/h''"
      "visibility ?r = Math_round (or_number (wd_visibility wd) 10000 / 1000)"
      "visibilityUnit ?r = ''km''" "tempUnit ?r = degree_sign @ ''C''"
      unfolding td using m by (simp_all add: convert_wind_def)
    have hourly: "h_windSpeed (hourlyForecast ?r ! i) =
           Math_round (wind_speed_or_0 (fi_wind (fc_list fd ! i)) * 3.6)"
      if f: "fetch_forecast net (forecastUrl c k ?u) = Response st' txt' (Some fd)" "ok st'"
        "\<forall>item \<in> set (take 8 (fc_list fd)). fi_weather item \<noteq> []"
        and i: "i < length (hourlyForecast ?r)" for st' txt' fd i
    proof -
      from i have "i < length ?hs" by simp
      from fetch_hourlyForecast_entries(2) [OF f this]
      have "map_item ?u (fc_list fd ! i) = Inr (?hs ! i)" .
      from map_item_InrD(7) [OF this] m show ?thesis by simp
    qed
    show "windSpeed ?r = Math_round (wind_speed_or_0 (wind wd) * 3.6) \<and> windUnit ?r = ''km/h'' \<and>
          visibility ?r = Math_round (or_number (wd_visibility wd) 10000 / 1000) \<and>
          visibilityUnit ?r = ''km'' \<and> tempUnit ?r = degree_sign @ ''C'' \<and>
          (\<forall>st' txt' fd.
             fetch_forecast net (forecastUrl c k ?u) = Response st' txt' (Some fd) \<and>
             ok st' \<and> (\<forall>item \<in> set (take 8 (fc_list fd)). fi_weather item \<noteq> []) \<longrightarrow>
             (\<forall>i < length (hourlyForecast ?r).
                h_windSpeed (hourlyForecast ?r ! i) =
                  Math_round (wind_speed_or_0 (fi_wind (fc_list fd ! i)) * 3.6)))"
      using top hourly by blast
  qed
  show ?thesis
    by (intro conjI exI [of _ ?r]) (rule A B C D1 D2 D3)+
qed

text \<open>
  The theorem at the units "kelvin": the request succeeds, the value is echoed and sent
  upstream, and the record is the metric one.
\<close>

theorem C10_units_not_validated_witness:
  "status (response (GET (Some key0) net_ok (req0 (Some ''kelvin'')))) = 200 \<and>
   map_option units (record_of (GET (Some key0) net_ok (req0 (Some ''kelvin'')))) =
     Some ''kelvin'' \<and>
   map_option windSpeed (record_of (GET (Some key0) net_ok (req0 (Some ''kelvin'')))) = Some 36 \<and>
   map_option windUnit (record_of (GET (Some key0) net_ok (req0 (Some ''kelvin'')))) =
     Some ''km/h'' \<and>
   map_option visibility (record_of (GET (Some key0) net_ok (req0 (Some ''kelvin'')))) = Some 10 \<and>
   map_option visibilityUnit (record_of (GET (Some key0) net_ok (req0 (Some ''kelvin'')))) =
     Some ''km'' \<and>
   map_option tempUnit (record_of (GET (Some key0) net_ok (req0 (Some ''kelvin'')))) =
     Some [CHR 0xC2, CHR 0xB0, CHR ''C''] \<and>
   hd (calls (GET (Some key0) net_ok (req0 (Some ''kelvin'')))) =
     Fetch (''https://api.openweathermap.org/data/2.5/weather?q=London&appid='' @ key0 @
            ''&units=kelvin'')"
proof -
  let ?q = "req0 (Some ''kelvin'')"
  have c: "q_city ?q = Some ''London''" by (simp add: req0_def)
  have ne: "''London'' \<noteq> []" by simp
  have k: "length key0 = 32" by (simp add: key0_def)
  have w: "fetch_weather net_ok (weatherUrl ''London'' key0 (units_of ?q)) =
      Response 200 [] (Some wd0)"
    by (simp add: net_ok_def const_net_def)
  have o: "ok 200" by (simp add: ok_def)
  have nw: "weather wd0 \<noteq> []" by (simp add: wd0_def)
  have u: "units_of ?q = ''kelvin''" by (simp add: units_of_def req0_def)
  have e: "encodeURIComponent ''London'' = ''London''" by code_simp
  have r1: "Math_round (wind_speed_or_0 (wind wd0) * 3.6) = 36" by code_simp
  have r2: "Math_round (or_number (wd_visibility wd0) 10000 / 1000) = 10" by code_simp
  from C10_units_not_validated [OF c ne k w o nw]
  show ?thesis unfolding u e r1 r2
    by (auto simp: record_of_def degree_sign_def OPENWEATHER_BASE_URL_def)
qed

end
